theory Spec2Isabelle
  imports Complex_Main "HOL-Library.Word"
begin

section \<open>Data model\<close>

text \<open>
  \<^verbatim>\<open>idx_t\<close> is \<^verbatim>\<open>size_type<matrix_t>\<close>, the unsigned index type of the matrix class
  (\<^verbatim>\<open>std::size_t\<close> for the matrices of \<^verbatim>\<open>test_hqr_schurToEigen.cpp\<close>): a 64-bit word, so
  that \<^verbatim>\<open>en - 1\<close> and \<^verbatim>\<open>en - 2\<close> wrap around at zero as they do in the source. The counters
  \<^verbatim>\<open>its\<close> and \<^verbatim>\<open>itn\<close> have the same type. \<^verbatim>\<open>real_t\<close> is modelled by the exact reals:
  rounding is not part of the model.
\<close>

type_synonym idx = "64 word"

datatype error = CheckFailed | OutOfRange

text \<open>
  The dense matrix collaborator: its two dimensions and random access by (row, column).
\<close>

record matrix =
  nrows :: idx
  ncols :: idx
  entries :: "idx \<Rightarrow> idx \<Rightarrow> real"

text \<open>
  The five scalars behind the pointers \<^verbatim>\<open>s, t, x, y, w\<close>. The pointers are taken to be
  distinct and to point outside the storage of \<^verbatim>\<open>A\<close>.
\<close>

record shift =
  val_s :: real
  val_t :: real
  val_x :: real
  val_y :: real
  val_w :: real

text \<open>
  \<^verbatim>\<open>hqr_formshift\<close> names \<^verbatim>\<open>size(w)\<close>, \<^verbatim>\<open>want_q\<close>, \<^verbatim>\<open>Q\<close> and \<^verbatim>\<open>Z\<close> in its argument checks
  without declaring them; what they denote is a parameter of the model. The second check
  is spelt \<^verbatim>\<open>tlapack_check_fals\<close> in the source and is read as the macro of the first.
\<close>

record scope =
  size_w :: idx
  want_q :: bool
  ncols_Q :: idx
  nrows_Z :: idx

section \<open>Access and sequencing\<close>

definition ebind :: "error + 'a \<Rightarrow> ('a \<Rightarrow> error + 'b) \<Rightarrow> error + 'b" where
  "ebind m f = (case m of Inl e \<Rightarrow> Inl e | Inr v \<Rightarrow> f v)"

text \<open>
  \<^verbatim>\<open>A(i, j)\<close>: a read outside the matrix is undefined in the source; the model stops
  with \<^const>\<open>OutOfRange\<close>.
\<close>

definition entry :: "matrix \<Rightarrow> idx \<Rightarrow> idx \<Rightarrow> error + real" where
  "entry A i j = (if i < nrows A \<and> j < ncols A then Inr (entries A i j) else Inl OutOfRange)"

text \<open>
  Modelled from the spec: the macro \<^verbatim>\<open>tlapack_check_false\<close> is not among the sources.
  Section 7 of the specification has a precondition violation rejected at once, before any
  mutation, and reported as a value.
\<close>

definition tlapack_check_false :: "bool \<Rightarrow> error + unit" where
  "tlapack_check_false cond = (if cond then Inl CheckFailed else Inr ())"

section \<open>hqr\_formshift\<close>

text \<open>
  The loop \<^verbatim>\<open>for (idx_t i = low; i <= en; i++) A(i,i) -= *x;\<close> of \<^verbatim>\<open>hqr_formshift\<close>.
\<close>

function hqr_formshift_loop :: "matrix \<Rightarrow> real \<Rightarrow> idx \<Rightarrow> idx \<Rightarrow> error + matrix" where
  "hqr_formshift_loop A xv i en =
     (if i \<le> en then
        (if i < nrows A \<and> i < ncols A then
           hqr_formshift_loop
             (A\<lparr>entries := (entries A)(i := (entries A i)(i := entries A i i - xv))\<rparr>)
             xv (i + 1) en
         else Inl OutOfRange)
      else Inr A)"
  by pat_completeness auto
termination
proof (relation "measure (\<lambda>(A, xv, i, en). Suc (unat en) - unat i)")
  show "wf (measure (\<lambda>(A, xv, i, en). Suc (unat en) - unat i))"
    by simp
next
  fix A :: matrix and xv :: real and i en :: idx
  assume le: "i \<le> en" and rng: "i < nrows A \<and> i < ncols A"
  from rng have "unat i < unat (nrows A)"
    by (simp add: word_less_nat_alt)
  moreover have "unat (nrows A) < 2 ^ 64"
    using unsigned_less [of "nrows A", where 'a = nat] by simp
  ultimately have "unat (i + 1) = Suc (unat i)"
    by (simp add: unat_word_ariths)
  moreover from le have "unat i \<le> unat en"
    by (simp add: word_le_nat_alt)
  ultimately show
    "((A\<lparr>entries := (entries A)(i := (entries A i)(i := entries A i i - xv))\<rparr>, xv, i + 1, en),
      (A, xv, i, en)) \<in> measure (\<lambda>(A, xv, i, en). Suc (unat en) - unat i)"
    by simp
qed

text \<open>
  \<^verbatim>\<open>hqr_formshift(low, A, its, itn, en, l, s, t, x, y, w)\<close>: the status, the five scalars
  and the matrix on return, or the error that stopped the call.
\<close>

definition hqr_formshift ::
  "scope \<Rightarrow> idx \<Rightarrow> matrix \<Rightarrow> idx \<Rightarrow> idx \<Rightarrow> idx \<Rightarrow> idx \<Rightarrow> shift \<Rightarrow> error + (int \<times> shift \<times> matrix)"
where
  "hqr_formshift sc low A its itn en l st =
     (let n = ncols A in
      ebind (tlapack_check_false (n \<noteq> nrows A)) (\<lambda>_.
      ebind (tlapack_check_false (size_w sc \<noteq> n)) (\<lambda>_.
      ebind (if want_q sc then tlapack_check_false (n \<noteq> ncols_Q sc \<or> n \<noteq> nrows_Z sc)
             else Inr ()) (\<lambda>_.
      ebind (entry A en en) (\<lambda>a.
      let st = st\<lparr>val_x := a\<rparr> in
      if l = en then Inr (1, st, A) else
      ebind (entry A (en - 1) (en - 1)) (\<lambda>b.
      let st = st\<lparr>val_y := b\<rparr> in
      ebind (entry A en (en - 1)) (\<lambda>c.
      ebind (entry A (en - 1) en) (\<lambda>d.
      let st = st\<lparr>val_w := c * d\<rparr> in
      if l = en - 1 then Inr (2, st, A) else
      if itn = 0 then Inr (3, st, A) else
      if its \<noteq> 10 \<and> itn \<noteq> 20 then Inr (0, st, A) else
      let st = st\<lparr>val_t := val_t st + val_x st\<rparr> in
      ebind (hqr_formshift_loop A (val_x st) low en) (\<lambda>A.
      ebind (entry A en (en - 1)) (\<lambda>e.
      ebind (entry A (en - 1) (en - 2)) (\<lambda>f.
      let st = st\<lparr>val_s := abs e + abs f\<rparr>;
          st = st\<lparr>val_x := 0.75 * val_s st\<rparr>;
          st = st\<lparr>val_y := val_x st\<rparr>;
          st = st\<lparr>val_w := - 0.4375 * val_s st * val_s st\<rparr>
      in Inr (0, st, A))))))))))))"

text \<open>The argument checks pass.\<close>

definition args_ok :: "scope \<Rightarrow> matrix \<Rightarrow> bool" where
  "args_ok sc A \<longleftrightarrow>
     ncols A = nrows A \<and> size_w sc = ncols A \<and>
     (want_q sc \<longrightarrow> ncols A = ncols_Q sc \<and> ncols A = nrows_Z sc)"

text \<open>The entry \<open>(i, j)\<close> of the matrix a call leaves behind.\<close>

definition entry_on_return :: "error + (int \<times> shift \<times> matrix) \<Rightarrow> idx \<Rightarrow> idx \<Rightarrow> real option" where
  "entry_on_return r i j = (case r of Inl e \<Rightarrow> None | Inr (status, st, A) \<Rightarrow> Some (entries A i j))"

section \<open>The driver\<close>

text \<open>
  Modelled from the spec: the driver \<^verbatim>\<open>hqr\<close>, its deflation scan and the QR step are not
  among the sources; only the test that calls \<^verbatim>\<open>hqr\<close> is. What follows is written from
  sections 3, 4.1 and 4.3 of the specification. Window positions are integers, as in the
  specification's pseudocode, and are converted to \<^typ>\<open>idx\<close> where \<^const>\<open>hqr_formshift\<close> is
  called; the arrays \<^verbatim>\<open>wr\<close> and \<^verbatim>\<open>wi\<close> are functions of the row position.
\<close>

text \<open>
  Modelled from the spec: the collaborators that the specification names and leaves open.
  \<open>negligible\<close> is the relative negligibility test (the magnitude of a subdiagonal entry
  against the sum of the magnitudes of its diagonal neighbours), \<open>QRStepEngine\<close> is one
  implicit double-shift sweep on \<open>A\<close> and the optional accumulator \<open>Z\<close>, and
  \<open>iteration_budget\<close> gives the budget for a matrix of order \<open>n\<close>.
\<close>

record collaborators =
  negligible :: "real \<Rightarrow> real \<Rightarrow> bool"
  QRStepEngine ::
    "int \<Rightarrow> int \<Rightarrow> matrix \<Rightarrow> real \<Rightarrow> real \<Rightarrow> real \<Rightarrow> matrix option \<Rightarrow> matrix \<times> matrix option"
  iteration_budget :: "idx \<Rightarrow> idx"

text \<open>
  Modelled from the spec: \<^verbatim>\<open>find_deflation_row\<close> (section 4.3), the largest \<open>l\<close> in
  \<open>[low, en]\<close> with negligible subdiagonal \<open>A(l, l-1)\<close>: it scans upward from \<open>en\<close> while the
  subdiagonal is not negligible and stops at \<open>low\<close>.
\<close>

function find_deflation_row :: "(real \<Rightarrow> real \<Rightarrow> bool) \<Rightarrow> matrix \<Rightarrow> int \<Rightarrow> int \<Rightarrow> int" where
  "find_deflation_row neg A low l =
     (if l \<le> low then low
      else if neg \<bar>entries A (word_of_int l) (word_of_int (l - 1))\<bar>
                (\<bar>entries A (word_of_int (l - 1)) (word_of_int (l - 1))\<bar> +
                 \<bar>entries A (word_of_int l) (word_of_int l)\<bar>)
      then l
      else find_deflation_row neg A low (l - 1))"
  by pat_completeness auto
termination
  by (relation "measure (\<lambda>(neg, A, low, l). nat (l - low))") auto

text \<open>
  Modelled from the spec: the state the driver of section 4.3 owns (section 3): the matrix,
  the accumulator, the eigenvalue arrays, the window bottom \<open>en\<close>, the two iteration
  counters and the shift state.
\<close>

record hqr_state =
  st_A :: matrix
  st_Z :: "matrix option"
  st_wr :: "int \<Rightarrow> real"
  st_wi :: "int \<Rightarrow> real"
  st_en :: int
  st_its :: idx
  st_itn :: idx
  st_shift :: shift

text \<open>Modelled from the spec: SUCCESS and FAILURE(en) of the pseudocode of section 4.3.\<close>

datatype outcome = SUCCESS | FAILURE int

text \<open>
  Modelled from the spec: status 1 of section 4.1, one real eigenvalue at row \<open>en\<close>:
  \<open>x\<close> is the eigenvalue and \<open>wi\<close> is zero.
\<close>

definition record_real :: "shift \<Rightarrow> int \<Rightarrow> hqr_state \<Rightarrow> hqr_state" where
  "record_real sh k \<sigma> =
     \<sigma>\<lparr>st_wr := (st_wr \<sigma>)(k := val_x sh), st_wi := (st_wi \<sigma>)(k := 0)\<rparr>"

text \<open>
  Modelled from the spec: status 2 of section 4.1, the block at rows \<open>en-1, en\<close>. The
  discriminant is \<open>((x-y)/2)\<^sup>2 + w\<close>; nonnegative, it gives two real eigenvalues; negative,
  a conjugate pair with imaginary part the square root of its negation. The real parts are
  those of the roots \<open>(x+y)/2 + sqrt d\<close> and \<open>(x+y)/2 - sqrt d\<close> of the block; the row
  with the positive imaginary part comes first, which is how
  \<^verbatim>\<open>test_hqr_schurToEigen.cpp\<close> reads a pair when it rebuilds the complex eigenvectors.
\<close>

definition resolve_2x2 :: "shift \<Rightarrow> int \<Rightarrow> hqr_state \<Rightarrow> hqr_state" where
  "resolve_2x2 sh k \<sigma> =
     (let x = val_x sh; y = val_y sh; w = val_w sh;
          d = ((x - y) / 2)\<^sup>2 + w;
          m = (x + y) / 2
      in if 0 \<le> d then
           \<sigma>\<lparr>st_wr := (st_wr \<sigma>)(k - 1 := m + sqrt d, k := m - sqrt d),
              st_wi := (st_wi \<sigma>)(k - 1 := 0, k := 0)\<rparr>
         else
           \<sigma>\<lparr>st_wr := (st_wr \<sigma>)(k - 1 := m, k := m),
              st_wi := (st_wi \<sigma>)(k - 1 := sqrt (- d), k := - sqrt (- d))\<rparr>)"

text \<open>
  Modelled from the spec: the loop of the pseudocode of section 4.3. The inner and the outer loop
  are one recursion: \<open>its\<close> is reset when a block deflates, which is when the inner loop is
  left. The recursion ends because every deflation lowers \<open>en\<close> and every QR step, taken
  only when \<^const>\<open>hqr_formshift\<close> found \<open>itn \<noteq> 0\<close>, lowers \<open>itn\<close>.
\<close>

function hqr_loop :: "collaborators \<Rightarrow> scope \<Rightarrow> int \<Rightarrow> hqr_state \<Rightarrow> error + (outcome \<times> hqr_state)" where
  "hqr_loop C sc low \<sigma> =
     (if low \<le> st_en \<sigma> then
        (let l = find_deflation_row (negligible C) (st_A \<sigma>) low (st_en \<sigma>) in
         case hqr_formshift sc (word_of_int low) (st_A \<sigma>) (st_its \<sigma>) (st_itn \<sigma>)
                (word_of_int (st_en \<sigma>)) (word_of_int l) (st_shift \<sigma>) of
           Inl e \<Rightarrow> Inl e
         | Inr (status, sh, A) \<Rightarrow>
             if status = 1 then
               hqr_loop C sc low
                 ((record_real sh (st_en \<sigma>) \<sigma>)
                    \<lparr>st_A := A, st_shift := sh, st_en := st_en \<sigma> - 1, st_its := 0\<rparr>)
             else if status = 2 then
               hqr_loop C sc low
                 ((resolve_2x2 sh (st_en \<sigma>) \<sigma>)
                    \<lparr>st_A := A, st_shift := sh, st_en := st_en \<sigma> - 2, st_its := 0\<rparr>)
             else if status = 3 then
               Inr (FAILURE (st_en \<sigma>), \<sigma>\<lparr>st_A := A, st_shift := sh\<rparr>)
             else
               (case QRStepEngine C l (st_en \<sigma>) A (val_x sh) (val_y sh) (val_w sh) (st_Z \<sigma>) of
                  (A', Z') \<Rightarrow>
                    hqr_loop C sc low
                      (\<sigma>\<lparr>st_A := A', st_Z := Z', st_shift := sh,
                         st_its := st_its \<sigma> + 1, st_itn := st_itn \<sigma> - 1\<rparr>)))
      else Inr (SUCCESS, \<sigma>))"
  by pat_completeness auto
termination
proof (relation "measures [\<lambda>(C, sc, low, \<sigma>). nat (st_en \<sigma> - low + 1),
                           \<lambda>(C, sc, low, \<sigma>). unat (st_itn \<sigma>)]", goal_cases)
  case 1
  show ?case by simp
next
  case 2
  then show ?case by (simp add: record_real_def)
next
  case 3
  then show ?case by (simp add: resolve_2x2_def Let_def)
next
  fix C :: collaborators and sc low \<sigma> l b status y sh A' Z'
  assume call: "hqr_formshift sc (word_of_int low) (st_A \<sigma>) (st_its \<sigma>) (st_itn \<sigma>)
                (word_of_int (st_en \<sigma>)) (word_of_int l) (st_shift \<sigma>) = Inr b"
    and b: "(status, y) = b"
    and status: "status \<noteq> 1" "status \<noteq> 2" "status \<noteq> 3"
  from call b [symmetric] status have "st_itn \<sigma> \<noteq> 0"
    by (auto simp: hqr_formshift_def ebind_def Let_def split: sum.splits if_splits)
  then have "unat (st_itn \<sigma> - 1) < unat (st_itn \<sigma>)"
    by unat_arith
  then show "((C, sc, low, \<sigma>\<lparr>st_A := A', st_Z := Z', st_shift := sh,
                         st_its := st_its \<sigma> + 1, st_itn := st_itn \<sigma> - 1\<rparr>), C, sc, low, \<sigma>)
      \<in> measures [\<lambda>(C, sc, low, \<sigma>). nat (st_en \<sigma> - low + 1),
                   \<lambda>(C, sc, low, \<sigma>). unat (st_itn \<sigma>)]"
    by simp
qed

text \<open>
  Modelled from the spec: the return value of section 4.3, 0 on success and the 1-based
  index of the eigenvalue that did not converge on failure.
\<close>

fun return_value :: "outcome \<Rightarrow> int" where
  "return_value SUCCESS = 0"
| "return_value (FAILURE k) = k + 1"

text \<open>
  Modelled from the spec: the entry point \<^verbatim>\<open>hqr\<close>. A non-square matrix or a window that
  breaks \<open>0 \<le> low \<le> high \<le> n - 1\<close> is rejected before anything is changed (section 7);
  otherwise the loop starts at \<open>en = high\<close> with the whole budget.
\<close>

definition hqr ::
  "collaborators \<Rightarrow> scope \<Rightarrow> matrix \<Rightarrow> int \<Rightarrow> int \<Rightarrow> (int \<Rightarrow> real) \<Rightarrow> (int \<Rightarrow> real) \<Rightarrow> matrix option
     \<Rightarrow> error + (int \<times> hqr_state)"
where
  "hqr C sc A low high wr wi Z =
     (if ncols A \<noteq> nrows A \<or> low < 0 \<or> high < low \<or> uint (ncols A) \<le> high then Inl CheckFailed
      else
        case hqr_loop C sc low
               \<lparr>st_A = A, st_Z = Z, st_wr = wr, st_wi = wi, st_en = high, st_its = 0,
                st_itn = iteration_budget C (ncols A),
                st_shift = \<lparr>val_s = 0, val_t = 0, val_x = 0, val_y = 0, val_w = 0\<rparr>\<rparr> of
          Inl e \<Rightarrow> Inl e
        | Inr (out, \<sigma>) \<Rightarrow> Inr (return_value out, \<sigma>))"

text \<open>
  Each row \<open>k\<close> of \<open>lo, \<dots>, hi\<close> holds a real eigenvalue, or the first of a conjugate pair
  whose second is at row \<open>k + 1\<close>, or the second of a pair whose first is at row \<open>k - 1\<close>.
\<close>

abbreviation (input) conj_rows :: "int \<Rightarrow> int \<Rightarrow> (int \<Rightarrow> real) \<Rightarrow> (int \<Rightarrow> real) \<Rightarrow> bool" where
  "conj_rows lo hi wr wi \<equiv>
     \<forall>k. lo \<le> k \<and> k \<le> hi \<longrightarrow>
       wi k = 0 \<or>
       (0 < wi k \<and> k < hi \<and> wr (k + 1) = wr k \<and> wi (k + 1) = - wi k) \<or>
       (wi k < 0 \<and> lo < k \<and> wr (k - 1) = wr k \<and> wi (k - 1) = - wi k)"

text \<open>The state in which \<^const>\<open>hqr\<close> enters the loop.\<close>

abbreviation (input) hqr_start ::
  "collaborators \<Rightarrow> matrix \<Rightarrow> int \<Rightarrow> (int \<Rightarrow> real) \<Rightarrow> (int \<Rightarrow> real) \<Rightarrow> matrix option \<Rightarrow> hqr_state"
where
  "hqr_start C A high wr wi Z \<equiv>
     \<lparr>st_A = A, st_Z = Z, st_wr = wr, st_wi = wi, st_en = high, st_its = 0,
      st_itn = iteration_budget C (ncols A),
      st_shift = \<lparr>val_s = 0, val_t = 0, val_x = 0, val_y = 0, val_w = 0\<rparr>\<rparr>"

text \<open>The call of \<^const>\<open>hqr_formshift\<close> that the loop makes in the state \<open>\<tau>\<close>.\<close>

abbreviation (input) shift_policy_at ::
  "collaborators \<Rightarrow> scope \<Rightarrow> int \<Rightarrow> hqr_state \<Rightarrow> error + (int \<times> shift \<times> matrix)"
where
  "shift_policy_at C sc low \<tau> \<equiv>
     hqr_formshift sc (word_of_int low) (st_A \<tau>) (st_its \<tau>) (st_itn \<tau>) (word_of_int (st_en \<tau>))
       (word_of_int (find_deflation_row (negligible C) (st_A \<tau>) low (st_en \<tau>))) (st_shift \<tau>)"

section \<open>Example data\<close>

text \<open>A tridiagonal matrix of order 3, and a scope in which every argument check passes.\<close>

definition ex_scope :: scope where
  "ex_scope = \<lparr>size_w = 3, want_q = False, ncols_Q = 0, nrows_Z = 0\<rparr>"

definition ex_A :: matrix where
  "ex_A = \<lparr>nrows = 3, ncols = 3,
           entries = (\<lambda>i j. if i = j then 6 else if i = j + 1 then 2 else if j = i + 1 then 1 else 0)\<rparr>"

definition ex_shift :: shift where
  "ex_shift = \<lparr>val_s = 0, val_t = 0, val_x = 0, val_y = 0, val_w = 0\<rparr>"

text \<open>
  Collaborators for the examples: a subdiagonal entry is negligible when adding its
  magnitude to that of its neighbours changes nothing, the QR step leaves the matrix as it
  is (so nothing converges), and the budget is 2.
\<close>

definition ex_collaborators :: collaborators where
  "ex_collaborators =
     \<lparr>negligible = (\<lambda>sub nb. sub + nb = nb),
      QRStepEngine = (\<lambda>l en A x y w Z. (A, Z)),
      iteration_budget = (\<lambda>n. 2)\<rparr>"


definition ex_scope4 :: scope where
  "ex_scope4 = \<lparr>size_w = 4, want_q = False, ncols_Q = 0, nrows_Z = 0\<rparr>"

definition ex_H :: matrix where
  "ex_H = \<lparr>nrows = 4, ncols = 4,
           entries = (\<lambda>i j. if i = j then 6 else if i = 3 then 0 else if i = j + 1 then 2
                            else if j = i + 1 then 1 else 0)\<rparr>"

section \<open>Properties of hqr\_formshift\<close>

declare hqr_formshift_loop.simps [simp del]

lemmas formshift_defs =
  hqr_formshift_def args_ok_def ebind_def tlapack_check_false_def entry_def Let_def

lemma ex_ok: "args_ok ex_scope ex_A" "ncols ex_A = 3" "nrows ex_A = 3"
  by (simp_all add: args_ok_def ex_scope_def ex_A_def)

subsection \<open>Index arithmetic\<close>

lemma word_inc_le_iff:
  fixes i j n :: idx
  assumes "i < n"
  shows "i + 1 \<le> j \<longleftrightarrow> i < j"
  using assms by unat_arith

lemma word_pred_less:
  fixes en n :: idx
  shows "1 \<le> en \<Longrightarrow> en < n \<Longrightarrow> en - 1 < n" "1 \<le> en \<Longrightarrow> en - 1 \<noteq> en"
  by unat_arith+

lemma word_window:
  fixes l en :: idx
  shows "l \<le> en \<Longrightarrow> l \<noteq> en \<Longrightarrow> 1 \<le> en"
    "l \<le> en \<Longrightarrow> l \<noteq> en \<Longrightarrow> l \<noteq> en - 1 \<Longrightarrow> l < en - 1"
    "1 \<le> en \<Longrightarrow> l < en - 1 \<Longrightarrow> l \<noteq> en \<and> 2 \<le> en \<and> l \<le> en"
    "2 \<le> en \<Longrightarrow> en < n \<Longrightarrow> en - 2 < n \<and> en - 1 < n \<and> en - 2 \<noteq> en - 1 \<and> en - 1 \<noteq> en"
  by unat_arith+

subsection \<open>The diagonal loop\<close>

text \<open>
  Inside the matrix the loop always ends, and it subtracts \<open>xv\<close> from the diagonal entries
  of the rows \<open>i, \<dots>, en\<close> and from nothing else.
\<close>

lemma loop_result:
  "en < nrows A \<Longrightarrow> en < ncols A \<Longrightarrow>
   hqr_formshift_loop A xv i en =
     Inr (A\<lparr>entries := \<lambda>j k. if j = k \<and> i \<le> j \<and> j \<le> en then entries A j j - xv
                                else entries A j k\<rparr>)"
proof (induction A xv i en rule: hqr_formshift_loop.induct)
  case (1 A xv i en)
  show ?case
  proof (cases "i \<le> en")
    case False
    then have "(\<lambda>j k. if j = k \<and> i \<le> j \<and> j \<le> en then entries A j j - xv else entries A j k) = entries A"
      by (intro ext) auto
    with False show ?thesis
      by (subst hqr_formshift_loop.simps) simp
  next
    case True
    with "1.prems" have rng: "i < nrows A" "i < ncols A"
      by auto
    let ?A' = "A\<lparr>entries := (entries A)(i := (entries A i)(i := entries A i i - xv))\<rparr>"
    have ih: "hqr_formshift_loop ?A' xv (i + 1) en =
       Inr (?A'\<lparr>entries := \<lambda>j k. if j = k \<and> i + 1 \<le> j \<and> j \<le> en then entries ?A' j j - xv
                                else entries ?A' j k\<rparr>)"
      using "1.IH" [OF True] rng "1.prems" by simp
    have eq: "(\<lambda>j k. if j = k \<and> i + 1 \<le> j \<and> j \<le> en then entries ?A' j j - xv
                                else entries ?A' j k) =
          (\<lambda>j k. if j = k \<and> i \<le> j \<and> j \<le> en then entries A j j - xv else entries A j k)"
      using True by (intro ext) (auto simp: word_inc_le_iff [OF rng(1)])
    show ?thesis
      using True rng ih by (subst hqr_formshift_loop.simps) (simp add: eq)
  qed
qed

subsection \<open>The five exits\<close>

text \<open>
  A call whose argument checks pass, with \<open>en\<close> inside the matrix and \<open>l\<close> not below \<open>en\<close>,
  returns, and which of the five exits it takes is decided by \<open>l\<close>, \<open>itn\<close> and \<open>its\<close> in
  this order.
\<close>

lemma formshift_cases:
  assumes ok: "args_ok sc A" and en: "en < ncols A" and l: "l \<le> en"
  shows "hqr_formshift sc low A its itn en l st =
     (let a = entries A en en;
          blk = st\<lparr>val_x := a, val_y := entries A (en - 1) (en - 1),
                   val_w := entries A en (en - 1) * entries A (en - 1) en\<rparr>;
          s' = \<bar>entries A en (en - 1)\<bar> + \<bar>entries A (en - 1) (en - 2)\<bar>
      in if l = en then Inr (1, st\<lparr>val_x := a\<rparr>, A)
         else if l = en - 1 then Inr (2, blk, A)
         else if itn = 0 then Inr (3, blk, A)
         else if its \<noteq> 10 \<and> itn \<noteq> 20 then Inr (0, blk, A)
         else Inr (0, st\<lparr>val_s := s', val_t := val_t st + a, val_x := 0.75 * s',
                         val_y := 0.75 * s', val_w := - 0.4375 * s' * s'\<rparr>,
                   A\<lparr>entries := \<lambda>j k. if j = k \<and> low \<le> j \<and> j \<le> en then entries A j j - a
                                        else entries A j k\<rparr>))"
proof (cases "l = en")
  case True
  with ok en show ?thesis
    by (auto simp: formshift_defs)
next
  case False
  with l have en1: "1 \<le> en"
    by (rule word_window(1))
  have sq: "nrows A = ncols A"
    using ok by (simp add: args_ok_def)
  note p = word_pred_less(1) [OF en1 en] word_pred_less(2) [OF en1]
  show ?thesis
  proof (cases "l = en - 1 \<or> itn = 0 \<or> (its \<noteq> 10 \<and> itn \<noteq> 20)")
    case True
    with ok en False p show ?thesis
      by (auto simp: formshift_defs)
  next
    case exc: False
    then have "l < en - 1"
      using word_window(2) [OF l False] by simp
    with en1 have en2: "2 \<le> en"
      using word_window(3) by blast
    note q = word_window(4) [OF en2 en]
    have loop: "hqr_formshift_loop A (entries A en en) low en =
        Inr (A\<lparr>entries := \<lambda>j k. if j = k \<and> low \<le> j \<and> j \<le> en
                                  then entries A j j - entries A en en else entries A j k\<rparr>)"
      using en sq by (intro loop_result) simp_all
    from ok en False p q exc show ?thesis
      by (auto simp: formshift_defs loop)
  qed
qed

text \<open>
  C1. A call with a window of size 1 (\<open>l = en\<close>) returns status 1 with \<open>x\<close> equal to
  \<open>A(en, en)\<close>, whatever \<open>its\<close> and \<open>itn\<close> are. The call is taken to pass its argument
  checks and to have \<open>en\<close> inside the matrix.
\<close>

theorem formshift_window1:
  assumes "args_ok sc A" and "en < ncols A" and "l = en"
  shows "\<exists>st' A'. hqr_formshift sc low A its itn en l st = Inr (1, st', A') \<and>
           val_x st' = entries A en en"
  using assms by (auto simp: formshift_defs)

theorem formshift_window1_witness:
  "\<exists>st' A'. hqr_formshift ex_scope 0 ex_A 10 0 2 2 ex_shift = Inr (1, st', A') \<and> val_x st' = 6"
  using formshift_window1 [of ex_scope ex_A 2 2 0 10 0 ex_shift]
  by (simp add: ex_ok) (simp add: ex_A_def)

text \<open>
  C2. With no deflation (\<open>l < en - 1\<close>, where \<open>en - 1\<close> does not wrap) and budget left
  (\<open>itn \<noteq> 0\<close>), the call returns 0, and the exceptional shift is applied exactly when
  \<open>its = 10\<close> or \<open>itn = 20\<close>: then \<open>t\<close> grows by \<open>x = A(en, en)\<close>, every diagonal entry of the
  rows \<open>low, \<dots>, en\<close> shrinks by \<open>x\<close>, \<open>s\<close> is \<open>|A(en, en-1)| + |A(en-1, en-2)|\<close>, \<open>x\<close> and \<open>y\<close>
  are \<open>0.75 s\<close> and \<open>w\<close> is \<open>-0.4375 s\<^sup>2\<close>. Otherwise \<open>s\<close>, \<open>t\<close> and the matrix are as they
  were, and \<open>x\<close>, \<open>y\<close>, \<open>w\<close> describe the trailing block.
\<close>

theorem formshift_exceptional:
  assumes "args_ok sc A" and "en < ncols A" and "1 \<le> en" and "l < en - 1" and "itn \<noteq> 0"
  shows "hqr_formshift sc low A its itn en l st =
     (let s' = \<bar>entries A en (en - 1)\<bar> + \<bar>entries A (en - 1) (en - 2)\<bar> in
      if its = 10 \<or> itn = 20 then
        Inr (0, st\<lparr>val_s := s', val_t := val_t st + entries A en en, val_x := 0.75 * s',
                  val_y := 0.75 * s', val_w := - 0.4375 * s'\<^sup>2\<rparr>,
             A\<lparr>entries := \<lambda>i j. if i = j \<and> low \<le> i \<and> i \<le> en
                                then entries A i i - entries A en en else entries A i j\<rparr>)
      else
        Inr (0, st\<lparr>val_x := entries A en en, val_y := entries A (en - 1) (en - 1),
                  val_w := entries A en (en - 1) * entries A (en - 1) en\<rparr>, A))"
proof -
  from assms(3,4) have w: "l \<noteq> en \<and> 2 \<le> en \<and> l \<le> en"
    by (rule word_window(3))
  with assms(4) have "l \<noteq> en - 1" "l \<noteq> en" "l \<le> en"
    by auto
  with assms(5) show ?thesis
    by (simp add: formshift_cases [OF assms(1,2)] Let_def power2_eq_square)
qed

theorem formshift_exceptional_witness:
  "hqr_formshift ex_scope 0 ex_A 10 30 2 0 ex_shift =
     Inr (0, \<lparr>val_s = 4, val_t = 6, val_x = 3, val_y = 3, val_w = - 7\<rparr>,
          ex_A\<lparr>entries := \<lambda>i j. if i = j \<and> 0 \<le> i \<and> i \<le> 2
                                then entries ex_A i i - entries ex_A 2 2 else entries ex_A i j\<rparr>)"
  using formshift_exceptional [of ex_scope ex_A 2 0 30 0 10 ex_shift]
  by (simp add: ex_ok) (simp add: ex_A_def ex_shift_def)

text \<open>
  C3. The deflation checks come before the budget check: with \<open>itn = 0\<close> a call with
  \<open>l = en\<close> still returns 1 and a call with \<open>l = en - 1\<close> still returns 2; status 3 is
  returned only when \<open>l < en - 1\<close>.
\<close>

theorem formshift_deflation_first:
  assumes "args_ok sc A" and "en < ncols A" and "l \<le> en"
  shows "\<exists>status st' A'. hqr_formshift sc low A its 0 en l st = Inr (status, st', A') \<and>
           (l = en \<longrightarrow> status = 1) \<and> (l = en - 1 \<longrightarrow> status = 2) \<and>
           (status = 3 \<longrightarrow> 1 \<le> en \<and> l < en - 1)"
proof -
  have "l \<noteq> en \<Longrightarrow> l \<noteq> en - 1 \<Longrightarrow> 1 \<le> en \<and> l < en - 1"
    using word_window(1,2) [OF assms(3)] by simp
  moreover have "en - 1 \<noteq> en"
    by simp
  ultimately show ?thesis
    by (auto simp: formshift_cases [OF assms] Let_def)
qed

theorem formshift_deflation_first_witness:
  "\<exists>status st' A'. hqr_formshift ex_scope 0 ex_A 4 0 2 1 ex_shift = Inr (status, st', A') \<and>
     status = 2"
  using formshift_deflation_first [of ex_scope ex_A 2 1 0 4 ex_shift]
  by (simp add: ex_ok)

text \<open>
  C4. A call with a window of size 2 (\<open>l = en - 1\<close>) returns status 2 with \<open>x = A(en, en)\<close>,
  \<open>y = A(en-1, en-1)\<close> and \<open>w = A(en, en-1) * A(en-1, en)\<close>.
\<close>

theorem formshift_window2:
  assumes "args_ok sc A" and "en < ncols A" and "1 \<le> en" and "l = en - 1"
  shows "hqr_formshift sc low A its itn en l st =
     Inr (2, st\<lparr>val_x := entries A en en, val_y := entries A (en - 1) (en - 1),
              val_w := entries A en (en - 1) * entries A (en - 1) en\<rparr>, A)"
  using assms word_pred_less(1) [of en "ncols A"] word_pred_less(2) [of en]
  by (auto simp: formshift_defs)

theorem formshift_window2_witness:
  "hqr_formshift ex_scope 0 ex_A 10 0 2 1 ex_shift =
     Inr (2, \<lparr>val_s = 0, val_t = 0, val_x = 6, val_y = 6, val_w = 2\<rparr>, ex_A)"
  using formshift_window2 [of ex_scope ex_A 2 1 0 10 0 ex_shift]
  by (simp add: ex_ok) (simp add: ex_A_def ex_shift_def)

text \<open>
  C5. With \<open>l < en - 1\<close> the call returns status 3 if and only if \<open>itn = 0\<close>.
\<close>

theorem formshift_budget:
  assumes "args_ok sc A" and "en < ncols A" and "1 \<le> en" and "l < en - 1"
  shows "\<exists>status st' A'. hqr_formshift sc low A its itn en l st = Inr (status, st', A') \<and>
           (status = 3 \<longleftrightarrow> itn = 0)"
proof -
  from assms(3,4) have w: "l \<noteq> en \<and> 2 \<le> en \<and> l \<le> en"
    by (rule word_window(3))
  with assms(4) have "l \<noteq> en - 1" "l \<noteq> en" "l \<le> en"
    by auto
  then show ?thesis
    by (simp add: formshift_cases [OF assms(1,2)] Let_def)
qed

theorem formshift_budget_witness:
  "\<exists>status st' A'. hqr_formshift ex_scope 0 ex_A 4 0 2 0 ex_shift = Inr (status, st', A') \<and>
     status = 3"
  using formshift_budget [of ex_scope ex_A 2 0 0 4 0 ex_shift]
  by (simp add: ex_ok)

text \<open>
  C6, as stated: the matrix is unchanged on return of every call. It fails on the
  exceptional shift: with \<open>its = 10\<close> the entry \<open>A(0, 0) = 6\<close> of the example is 0 on return.
\<close>

theorem formshift_changes_matrix:
  "entry_on_return (hqr_formshift ex_scope 0 ex_A 10 30 2 0 ex_shift) 0 0 = Some 0 \<and>
   entries ex_A 0 0 = 6"
  by (simp add: formshift_cases [OF ex_ok(1)] ex_ok entry_on_return_def Let_def)
     (simp add: ex_A_def)

text \<open>
  C6, amended. The matrix is unchanged on return whenever the status is not 0 or the
  exceptional shift is not due (\<open>its \<noteq> 10\<close> and \<open>itn \<noteq> 20\<close>). When the exceptional shift is
  applied, the dimensions and every entry other than the diagonal entries of the rows
  \<open>low, \<dots>, en\<close> are unchanged, and those diagonal entries are decremented by \<open>A(en, en)\<close>.
\<close>

theorem formshift_matrix_frame:
  assumes "args_ok sc A" and "en < ncols A" and "l \<le> en"
  shows "\<exists>status st' A'. hqr_formshift sc low A its itn en l st = Inr (status, st', A') \<and>
           nrows A' = nrows A \<and> ncols A' = ncols A \<and>
           (\<forall>i j. \<not> (i = j \<and> low \<le> i \<and> i \<le> en) \<longrightarrow> entries A' i j = entries A i j) \<and>
           (status \<noteq> 0 \<or> (its \<noteq> 10 \<and> itn \<noteq> 20) \<longrightarrow> A' = A) \<and>
           (status = 0 \<and> (its = 10 \<or> itn = 20) \<longrightarrow>
              (\<forall>i. low \<le> i \<and> i \<le> en \<longrightarrow> entries A' i i = entries A i i - entries A en en))"
  by (simp add: formshift_cases [OF assms] Let_def)

theorem formshift_matrix_frame_witness:
  "\<exists>status st' A'. hqr_formshift ex_scope 0 ex_A 3 30 2 0 ex_shift = Inr (status, st', A') \<and>
     A' = ex_A"
  using formshift_matrix_frame [of ex_scope ex_A 2 0 0 3 30 ex_shift]
  by (simp add: ex_ok)

text \<open>
  C10. On the path \<open>l = en\<close> the call writes \<open>x\<close> and nothing else: \<open>s\<close>, \<open>t\<close>, \<open>y\<close> and \<open>w\<close>
  keep the values they had, whatever these were, the matrix is the one passed in, and the
  status is 1.
\<close>

theorem formshift_window1_frame:
  assumes "args_ok sc A" and "en < ncols A"
  shows "hqr_formshift sc low A its itn en en st = Inr (1, st\<lparr>val_x := entries A en en\<rparr>, A)"
  using assms by (auto simp: formshift_defs)

theorem formshift_window1_frame_witness:
  "hqr_formshift ex_scope 0 ex_A 3 20 2 2 ex_shift =
     Inr (1, \<lparr>val_s = 0, val_t = 0, val_x = 6, val_y = 0, val_w = 0\<rparr>, ex_A)"
  using formshift_window1_frame [of ex_scope ex_A 2 0 3 20 ex_shift]
  by (simp add: ex_ok) (simp add: ex_A_def ex_shift_def)

section \<open>Properties of the driver\<close>

declare hqr_loop.simps [simp del] find_deflation_row.simps [simp del]

lemma find_deflation_row_range:
  "low \<le> l \<Longrightarrow> low \<le> find_deflation_row neg A low l \<and> find_deflation_row neg A low l \<le> l"
proof (induction neg A low l rule: find_deflation_row.induct)
  case (1 neg A low l)
  then show ?case
    by (subst (1 2) find_deflation_row.simps) (auto simp: Let_def)
qed

lemma formshift_status:
  assumes "hqr_formshift sc low A its itn en l st = Inr (status, st', A')"
  shows "(status = 2 \<longrightarrow> l \<noteq> en) \<and> (status = 3 \<longrightarrow> itn = 0)"
  using assms
  by (auto simp: hqr_formshift_def ebind_def Let_def split: sum.splits if_splits)

lemma record_real_rows:
  assumes "conj_rows (e + 1) high (st_wr \<sigma>) (st_wi \<sigma>)"
  shows "conj_rows e high (st_wr (record_real sh e \<sigma>)) (st_wi (record_real sh e \<sigma>))"
proof (intro allI impI)
  fix k assume k: "e \<le> k \<and> k \<le> high"
  show "st_wi (record_real sh e \<sigma>) k = 0 \<or>
       (0 < st_wi (record_real sh e \<sigma>) k \<and> k < high \<and>
          st_wr (record_real sh e \<sigma>) (k + 1) = st_wr (record_real sh e \<sigma>) k \<and>
          st_wi (record_real sh e \<sigma>) (k + 1) = - st_wi (record_real sh e \<sigma>) k) \<or>
       (st_wi (record_real sh e \<sigma>) k < 0 \<and> e < k \<and>
          st_wr (record_real sh e \<sigma>) (k - 1) = st_wr (record_real sh e \<sigma>) k \<and>
          st_wi (record_real sh e \<sigma>) (k - 1) = - st_wi (record_real sh e \<sigma>) k)"
  proof (cases "k = e")
    case True
    then show ?thesis by (simp add: record_real_def)
  next
    case False
    with k have "e + 1 \<le> k \<and> k \<le> high" by simp
    with assms have "st_wi \<sigma> k = 0 \<or>
       (0 < st_wi \<sigma> k \<and> k < high \<and> st_wr \<sigma> (k + 1) = st_wr \<sigma> k \<and> st_wi \<sigma> (k + 1) = - st_wi \<sigma> k) \<or>
       (st_wi \<sigma> k < 0 \<and> e + 1 < k \<and> st_wr \<sigma> (k - 1) = st_wr \<sigma> k \<and> st_wi \<sigma> (k - 1) = - st_wi \<sigma> k)"
      by blast
    with False k show ?thesis
      by (auto simp: record_real_def)
  qed
qed

lemma resolve_2x2_rows:
  assumes "conj_rows (e + 1) high (st_wr \<sigma>) (st_wi \<sigma>)" and "e \<le> high"
  shows "conj_rows (e - 1) high (st_wr (resolve_2x2 sh e \<sigma>)) (st_wi (resolve_2x2 sh e \<sigma>))"
proof (intro allI impI)
  fix k assume k: "e - 1 \<le> k \<and> k \<le> high"
  let ?\<sigma> = "resolve_2x2 sh e \<sigma>"
  let ?d = "((val_x sh - val_y sh) / 2)\<^sup>2 + val_w sh"
  have pos: "\<not> 0 \<le> ?d \<Longrightarrow> 0 < sqrt (- ?d)"
    by simp
  show "st_wi ?\<sigma> k = 0 \<or>
       (0 < st_wi ?\<sigma> k \<and> k < high \<and> st_wr ?\<sigma> (k + 1) = st_wr ?\<sigma> k \<and>
          st_wi ?\<sigma> (k + 1) = - st_wi ?\<sigma> k) \<or>
       (st_wi ?\<sigma> k < 0 \<and> e - 1 < k \<and> st_wr ?\<sigma> (k - 1) = st_wr ?\<sigma> k \<and>
          st_wi ?\<sigma> (k - 1) = - st_wi ?\<sigma> k)"
  proof (cases "k = e \<or> k = e - 1")
    case True
    with assms(2) pos show ?thesis
      by (auto simp: resolve_2x2_def Let_def)
  next
    case False
    with k have "e + 1 \<le> k \<and> k \<le> high" by auto
    with assms(1) have "st_wi \<sigma> k = 0 \<or>
       (0 < st_wi \<sigma> k \<and> k < high \<and> st_wr \<sigma> (k + 1) = st_wr \<sigma> k \<and> st_wi \<sigma> (k + 1) = - st_wi \<sigma> k) \<or>
       (st_wi \<sigma> k < 0 \<and> e + 1 < k \<and> st_wr \<sigma> (k - 1) = st_wr \<sigma> k \<and> st_wi \<sigma> (k - 1) = - st_wi \<sigma> k)"
      by blast
    with False k show ?thesis
      by (auto simp: resolve_2x2_def Let_def)
  qed
qed

lemma record_real_simps:
  "st_en (record_real sh e \<sigma>) = st_en \<sigma>" "st_itn (record_real sh e \<sigma>) = st_itn \<sigma>"
  "k \<noteq> e \<Longrightarrow> st_wr (record_real sh e \<sigma>) k = st_wr \<sigma> k"
  "k \<noteq> e \<Longrightarrow> st_wi (record_real sh e \<sigma>) k = st_wi \<sigma> k"
  by (simp_all add: record_real_def)

lemma resolve_2x2_simps:
  "st_en (resolve_2x2 sh e \<sigma>) = st_en \<sigma>" "st_itn (resolve_2x2 sh e \<sigma>) = st_itn \<sigma>"
  "k \<noteq> e \<Longrightarrow> k \<noteq> e - 1 \<Longrightarrow> st_wr (resolve_2x2 sh e \<sigma>) k = st_wr \<sigma> k"
  "k \<noteq> e \<Longrightarrow> k \<noteq> e - 1 \<Longrightarrow> st_wi (resolve_2x2 sh e \<sigma>) k = st_wi \<sigma> k"
  by (simp_all add: resolve_2x2_def Let_def)

lemma hqr_loop_inv:
  assumes "hqr_loop C sc low \<sigma> = Inr (out, \<sigma>')"
    and "low - 1 \<le> st_en \<sigma>" and "st_en \<sigma> \<le> high"
    and "conj_rows (st_en \<sigma> + 1) high (st_wr \<sigma>) (st_wi \<sigma>)"
  shows "low - 1 \<le> st_en \<sigma>' \<and> st_en \<sigma>' \<le> st_en \<sigma> \<and>
         conj_rows (st_en \<sigma>' + 1) high (st_wr \<sigma>') (st_wi \<sigma>') \<and>
         (out = SUCCESS \<and> st_en \<sigma>' = low - 1 \<or>
          out = FAILURE (st_en \<sigma>') \<and> low \<le> st_en \<sigma>' \<and> st_itn \<sigma>' = 0) \<and>
         (\<forall>k. k \<le> st_en \<sigma>' \<or> st_en \<sigma> < k \<longrightarrow>
               st_wr \<sigma>' k = st_wr \<sigma> k \<and> st_wi \<sigma>' k = st_wi \<sigma> k)"
  using assms
proof (induction C sc low \<sigma> rule: hqr_loop.induct)
  case (1 C sc low \<sigma>)
  note run = "1.prems"(1) and lo = "1.prems"(2) and hi = "1.prems"(3) and rows = "1.prems"(4)
  show ?case
  proof (cases "low \<le> st_en \<sigma>")
    case False
    with run have "out = SUCCESS \<and> \<sigma>' = \<sigma>"
      by (subst (asm) hqr_loop.simps) simp
    with False lo rows show ?thesis
      by simp
  next
    case True
    define l where "l = find_deflation_row (negligible C) (st_A \<sigma>) low (st_en \<sigma>)"
    have l: "low \<le> l" "l \<le> st_en \<sigma>"
      using find_deflation_row_range [OF True] by (simp_all add: l_def)
    obtain status sh A where fs:
      "hqr_formshift sc (word_of_int low) (st_A \<sigma>) (st_its \<sigma>) (st_itn \<sigma>)
         (word_of_int (st_en \<sigma>)) (word_of_int l) (st_shift \<sigma>) = Inr (status, sh, A)"
      using run True
      by (subst (asm) hqr_loop.simps) (auto simp: l_def Let_def split: sum.splits)
    note st = formshift_status [OF fs]
    consider (one) "status = 1" | (two) "status = 2" | (three) "status = 3"
      | (step) "status \<noteq> 1" "status \<noteq> 2" "status \<noteq> 3"
      by blast
    then show ?thesis
    proof cases
      case one
      let ?\<sigma>1 = "(record_real sh (st_en \<sigma>) \<sigma>)
                    \<lparr>st_A := A, st_shift := sh, st_en := st_en \<sigma> - 1, st_its := 0\<rparr>"
      have run1: "hqr_loop C sc low ?\<sigma>1 = Inr (out, \<sigma>')"
        using run True fs one
        by (subst (asm) hqr_loop.simps) (simp add: l_def [symmetric])
      have rows1: "conj_rows (st_en ?\<sigma>1 + 1) high (st_wr ?\<sigma>1) (st_wi ?\<sigma>1)"
        using record_real_rows [OF rows, of sh] by simp
      have "low - 1 \<le> st_en ?\<sigma>1" "st_en ?\<sigma>1 \<le> high"
        using True hi by simp_all
      from "1.IH"(1) [OF True l_def fs refl refl one run1 this rows1]
      show ?thesis
        by (auto simp: record_real_simps)
    next
      case two
      with st have "l \<noteq> st_en \<sigma>"
        by auto
      with l have low1: "low \<le> st_en \<sigma> - 1"
        by simp
      let ?\<sigma>2 = "(resolve_2x2 sh (st_en \<sigma>) \<sigma>)
                    \<lparr>st_A := A, st_shift := sh, st_en := st_en \<sigma> - 2, st_its := 0\<rparr>"
      have run2: "hqr_loop C sc low ?\<sigma>2 = Inr (out, \<sigma>')"
        using run True fs two
        by (subst (asm) hqr_loop.simps) (simp add: l_def [symmetric])
      have rows2: "conj_rows (st_en ?\<sigma>2 + 1) high (st_wr ?\<sigma>2) (st_wi ?\<sigma>2)"
        using resolve_2x2_rows [OF rows hi, of sh] by simp
      have one_ne: "status \<noteq> 1"
        using two by simp
      have "low - 1 \<le> st_en ?\<sigma>2" "st_en ?\<sigma>2 \<le> high"
        using low1 hi by simp_all
      from "1.IH"(2) [OF True l_def fs refl refl one_ne two run2 this rows2]
      show ?thesis
        by (auto simp: resolve_2x2_simps)
    next
      case three
      with run True fs have "out = FAILURE (st_en \<sigma>) \<and> \<sigma>' = \<sigma>\<lparr>st_A := A, st_shift := sh\<rparr>"
        by (subst (asm) hqr_loop.simps) (simp add: l_def [symmetric])
      with three st True rows show ?thesis
        by simp
    next
      case step
      obtain A' Z' where qr:
        "(A', Z') = QRStepEngine C l (st_en \<sigma>) A (val_x sh) (val_y sh) (val_w sh) (st_Z \<sigma>)"
        by (metis surj_pair)
      let ?\<sigma>3 = "\<sigma>\<lparr>st_A := A', st_Z := Z', st_shift := sh,
                     st_its := st_its \<sigma> + 1, st_itn := st_itn \<sigma> - 1\<rparr>"
      have run3: "hqr_loop C sc low ?\<sigma>3 = Inr (out, \<sigma>')"
        using run True fs step qr [symmetric]
        by (subst (asm) hqr_loop.simps) (simp add: l_def [symmetric])
      have rows3: "conj_rows (st_en ?\<sigma>3 + 1) high (st_wr ?\<sigma>3) (st_wi ?\<sigma>3)"
        using rows by simp
      have "low - 1 \<le> st_en ?\<sigma>3" "st_en ?\<sigma>3 \<le> high"
        using lo hi by simp_all
      from "1.IH"(3) [OF True l_def fs refl refl step qr run3 this rows3]
      show ?thesis
        by simp
    qed
  qed
qed

text \<open>
  A deflation is one unfolding of the loop: the driver goes on from the state in which the
  eigenvalues are stored and \<open>en\<close> is lowered.
\<close>

lemma hqr_loop_real:
  assumes "low \<le> st_en \<tau>" and "shift_policy_at C sc low \<tau> = Inr (1, sh, A')"
  shows "hqr_loop C sc low \<tau> =
     hqr_loop C sc low
       ((record_real sh (st_en \<tau>) \<tau>)\<lparr>st_A := A', st_shift := sh, st_en := st_en \<tau> - 1, st_its := 0\<rparr>)"
  using assms by (subst hqr_loop.simps) simp

lemma hqr_loop_block:
  assumes "low \<le> st_en \<tau>" and "shift_policy_at C sc low \<tau> = Inr (2, sh, A')"
  shows "hqr_loop C sc low \<tau> =
     hqr_loop C sc low
       ((resolve_2x2 sh (st_en \<tau>) \<tau>)\<lparr>st_A := A', st_shift := sh, st_en := st_en \<tau> - 2, st_its := 0\<rparr>)"
  using assms by (subst hqr_loop.simps) simp

text \<open>
  From whatever state the loop goes on, it never raises \<open>en\<close> and never writes a row of
  \<open>wr\<close> or \<open>wi\<close> above it.
\<close>

lemma hqr_loop_preserves:
  assumes "hqr_loop C sc low \<tau> = Inr (out, \<sigma>)"
  shows "st_en \<sigma> \<le> st_en \<tau> \<and>
         (\<forall>k. st_en \<tau> < k \<longrightarrow> st_wr \<sigma> k = st_wr \<tau> k \<and> st_wi \<sigma> k = st_wi \<tau> k)"
  using assms
proof (induction C sc low \<tau> rule: hqr_loop.induct)
  case (1 C sc low \<tau>)
  note run = "1.prems"
  show ?case
  proof (cases "low \<le> st_en \<tau>")
    case False
    with run have "\<sigma> = \<tau>"
      by (subst (asm) hqr_loop.simps) simp
    then show ?thesis
      by simp
  next
    case True
    define l where "l = find_deflation_row (negligible C) (st_A \<tau>) low (st_en \<tau>)"
    obtain status sh A where fs:
      "hqr_formshift sc (word_of_int low) (st_A \<tau>) (st_its \<tau>) (st_itn \<tau>)
         (word_of_int (st_en \<tau>)) (word_of_int l) (st_shift \<tau>) = Inr (status, sh, A)"
      using run True
      by (subst (asm) hqr_loop.simps) (auto simp: l_def Let_def split: sum.splits)
    consider (one) "status = 1" | (two) "status = 2" | (three) "status = 3"
      | (step) "status \<noteq> 1" "status \<noteq> 2" "status \<noteq> 3"
      by blast
    then show ?thesis
    proof cases
      case one
      let ?\<tau>1 = "(record_real sh (st_en \<tau>) \<tau>)
                    \<lparr>st_A := A, st_shift := sh, st_en := st_en \<tau> - 1, st_its := 0\<rparr>"
      have "hqr_loop C sc low ?\<tau>1 = Inr (out, \<sigma>)"
        using run True fs one
        by (subst (asm) hqr_loop.simps) (simp add: l_def [symmetric])
      from "1.IH"(1) [OF True l_def fs refl refl one this]
      show ?thesis
        by (auto simp: record_real_simps)
    next
      case two
      let ?\<tau>2 = "(resolve_2x2 sh (st_en \<tau>) \<tau>)
                    \<lparr>st_A := A, st_shift := sh, st_en := st_en \<tau> - 2, st_its := 0\<rparr>"
      have "hqr_loop C sc low ?\<tau>2 = Inr (out, \<sigma>)"
        using run True fs two
        by (subst (asm) hqr_loop.simps) (simp add: l_def [symmetric])
      moreover have "status \<noteq> 1"
        using two by simp
      ultimately show ?thesis
        using "1.IH"(2) [OF True l_def fs refl refl _ two] 
        by (auto simp: resolve_2x2_simps)
    next
      case three
      with run True fs have "\<sigma> = \<tau>\<lparr>st_A := A, st_shift := sh\<rparr>"
        by (subst (asm) hqr_loop.simps) (simp add: l_def [symmetric])
      then show ?thesis
        by simp
    next
      case step
      obtain A' Z' where qr:
        "(A', Z') = QRStepEngine C l (st_en \<tau>) A (val_x sh) (val_y sh) (val_w sh) (st_Z \<tau>)"
        by (metis surj_pair)
      let ?\<tau>3 = "\<tau>\<lparr>st_A := A', st_Z := Z', st_shift := sh,
                     st_its := st_its \<tau> + 1, st_itn := st_itn \<tau> - 1\<rparr>"
      have "hqr_loop C sc low ?\<tau>3 = Inr (out, \<sigma>)"
        using run True fs step qr [symmetric]
        by (subst (asm) hqr_loop.simps) (simp add: l_def [symmetric])
      from "1.IH"(3) [OF True l_def fs refl refl step qr this]
      show ?thesis
        by simp
    qed
  qed
qed





text \<open>
  C8. \<^const>\<open>hqr\<close> returns 0 on success, with the whole window deflated. On
  non-convergence it returns the 1-based index \<open>en + 1\<close> of the row that did not converge,
  which is positive, with the budget at zero; the rows above \<open>en\<close> hold real eigenvalues or
  conjugate pairs, and the rows up to \<open>en\<close> of \<open>wr\<close> and \<open>wi\<close> are as the caller passed
  them. What the run has stored stays valid, on success and on failure alike: take any state
  \<open>\<tau>\<close> from which the loop goes on to the end of this run (every state the run passes
  through is one). The rows above the \<open>en\<close> of \<open>\<tau>\<close> are in the output as they are in \<open>\<tau>\<close>;
  if \<^const>\<open>hqr_formshift\<close> reports status 1 at \<open>\<tau>\<close>, the output holds its \<open>x\<close> and 0 at
  row \<open>en\<close>; if it reports status 2, the output holds at rows \<open>en - 1\<close> and \<open>en\<close> the values
  that \<^const>\<open>resolve_2x2\<close> computes there.
\<close>

theorem hqr_return_code:
  assumes "hqr C sc A low high wr wi Z = Inr (rc, \<sigma>)"
  shows "(rc = 0 \<and> st_en \<sigma> = low - 1 \<or>
          rc = st_en \<sigma> + 1 \<and> 0 < rc \<and> low \<le> st_en \<sigma> \<and> st_en \<sigma> \<le> high \<and> st_itn \<sigma> = 0) \<and>
         (\<forall>k. st_en \<sigma> < k \<and> k \<le> high \<longrightarrow>
           st_wi \<sigma> k = 0 \<or>
           (0 < st_wi \<sigma> k \<and> k < high \<and> st_wr \<sigma> (k + 1) = st_wr \<sigma> k \<and>
              st_wi \<sigma> (k + 1) = - st_wi \<sigma> k) \<or>
           (st_wi \<sigma> k < 0 \<and> st_en \<sigma> + 1 < k \<and> st_wr \<sigma> (k - 1) = st_wr \<sigma> k \<and>
              st_wi \<sigma> (k - 1) = - st_wi \<sigma> k)) \<and>
         (\<forall>k. k \<le> st_en \<sigma> \<longrightarrow> st_wr \<sigma> k = wr k \<and> st_wi \<sigma> k = wi k) \<and>
         (\<forall>\<tau>. hqr_loop C sc low \<tau> = hqr_loop C sc low (hqr_start C A high wr wi Z) \<longrightarrow>
            (\<forall>k. st_en \<tau> < k \<longrightarrow> st_wr \<sigma> k = st_wr \<tau> k \<and> st_wi \<sigma> k = st_wi \<tau> k) \<and>
            (\<forall>sh A'. low \<le> st_en \<tau> \<and> shift_policy_at C sc low \<tau> = Inr (1, sh, A') \<longrightarrow>
               st_wr \<sigma> (st_en \<tau>) = val_x sh \<and> st_wi \<sigma> (st_en \<tau>) = 0) \<and>
            (\<forall>sh A'. low \<le> st_en \<tau> \<and> shift_policy_at C sc low \<tau> = Inr (2, sh, A') \<longrightarrow>
               (\<forall>k. k = st_en \<tau> - 1 \<or> k = st_en \<tau> \<longrightarrow>
                  st_wr \<sigma> k = st_wr (resolve_2x2 sh (st_en \<tau>) \<tau>) k \<and>
                  st_wi \<sigma> k = st_wi (resolve_2x2 sh (st_en \<tau>) \<tau>) k)))"
proof -
  let ?\<sigma>0 = "hqr_start C A high wr wi Z"
  from assms obtain out where window: "0 \<le> low" "low \<le> high"
    and run: "hqr_loop C sc low ?\<sigma>0 = Inr (out, \<sigma>)" and rc: "rc = return_value out"
    by (auto simp: hqr_def split: if_splits sum.splits)
  have inv: "low - 1 \<le> st_en \<sigma> \<and> st_en \<sigma> \<le> st_en ?\<sigma>0 \<and>
         conj_rows (st_en \<sigma> + 1) high (st_wr \<sigma>) (st_wi \<sigma>) \<and>
         (out = SUCCESS \<and> st_en \<sigma> = low - 1 \<or>
          out = FAILURE (st_en \<sigma>) \<and> low \<le> st_en \<sigma> \<and> st_itn \<sigma> = 0) \<and>
         (\<forall>k. k \<le> st_en \<sigma> \<or> st_en ?\<sigma>0 < k \<longrightarrow>
               st_wr \<sigma> k = st_wr ?\<sigma>0 k \<and> st_wi \<sigma> k = st_wi ?\<sigma>0 k)"
    using window by (intro hqr_loop_inv [OF run]) simp_all
  then have code: "rc = 0 \<and> st_en \<sigma> = low - 1 \<or>
      rc = st_en \<sigma> + 1 \<and> 0 < rc \<and> low \<le> st_en \<sigma> \<and> st_en \<sigma> \<le> high \<and> st_itn \<sigma> = 0"
    using rc window by auto
  from inv have rows: "conj_rows (st_en \<sigma> + 1) high (st_wr \<sigma>) (st_wi \<sigma>)"
    by blast
  from inv have untouched: "\<forall>k. k \<le> st_en \<sigma> \<longrightarrow> st_wr \<sigma> k = wr k \<and> st_wi \<sigma> k = wi k"
    by simp
  have kept: "(\<forall>k. st_en \<tau> < k \<longrightarrow> st_wr \<sigma> k = st_wr \<tau> k \<and> st_wi \<sigma> k = st_wi \<tau> k) \<and>
            (\<forall>sh A'. low \<le> st_en \<tau> \<and> shift_policy_at C sc low \<tau> = Inr (1, sh, A') \<longrightarrow>
               st_wr \<sigma> (st_en \<tau>) = val_x sh \<and> st_wi \<sigma> (st_en \<tau>) = 0) \<and>
            (\<forall>sh A'. low \<le> st_en \<tau> \<and> shift_policy_at C sc low \<tau> = Inr (2, sh, A') \<longrightarrow>
               (\<forall>k. k = st_en \<tau> - 1 \<or> k = st_en \<tau> \<longrightarrow>
                  st_wr \<sigma> k = st_wr (resolve_2x2 sh (st_en \<tau>) \<tau>) k \<and>
                  st_wi \<sigma> k = st_wi (resolve_2x2 sh (st_en \<tau>) \<tau>) k))"
    if "hqr_loop C sc low \<tau> = hqr_loop C sc low ?\<sigma>0" for \<tau>
  proof -
    from that run have fin: "hqr_loop C sc low \<tau> = Inr (out, \<sigma>)"
      by simp
    have p1: "\<forall>k. st_en \<tau> < k \<longrightarrow> st_wr \<sigma> k = st_wr \<tau> k \<and> st_wi \<sigma> k = st_wi \<tau> k"
      using hqr_loop_preserves [OF fin] by simp
    have p2: "\<forall>sh A'. low \<le> st_en \<tau> \<and> shift_policy_at C sc low \<tau> = Inr (1, sh, A') \<longrightarrow>
               st_wr \<sigma> (st_en \<tau>) = val_x sh \<and> st_wi \<sigma> (st_en \<tau>) = 0"
    proof (intro allI impI)
      fix sh A' assume d: "low \<le> st_en \<tau> \<and> shift_policy_at C sc low \<tau> = Inr (1, sh, A')"
      let ?\<tau>1 = "(record_real sh (st_en \<tau>) \<tau>)
                    \<lparr>st_A := A', st_shift := sh, st_en := st_en \<tau> - 1, st_its := 0\<rparr>"
      from d fin have "hqr_loop C sc low ?\<tau>1 = Inr (out, \<sigma>)"
        using hqr_loop_real [where low = low and \<tau> = \<tau> and C = C and sc = sc and sh = sh and A' = A'] by simp
      from hqr_loop_preserves [OF this]
      have "st_wr \<sigma> (st_en \<tau>) = st_wr ?\<tau>1 (st_en \<tau>) \<and> st_wi \<sigma> (st_en \<tau>) = st_wi ?\<tau>1 (st_en \<tau>)"
        by simp
      then show "st_wr \<sigma> (st_en \<tau>) = val_x sh \<and> st_wi \<sigma> (st_en \<tau>) = 0"
        by (simp add: record_real_def)
    qed
    have p3: "\<forall>sh A'. low \<le> st_en \<tau> \<and> shift_policy_at C sc low \<tau> = Inr (2, sh, A') \<longrightarrow>
               (\<forall>k. k = st_en \<tau> - 1 \<or> k = st_en \<tau> \<longrightarrow>
                  st_wr \<sigma> k = st_wr (resolve_2x2 sh (st_en \<tau>) \<tau>) k \<and>
                  st_wi \<sigma> k = st_wi (resolve_2x2 sh (st_en \<tau>) \<tau>) k)"
    proof (intro allI impI)
      fix sh A' k
      assume d: "low \<le> st_en \<tau> \<and> shift_policy_at C sc low \<tau> = Inr (2, sh, A')"
        and k: "k = st_en \<tau> - 1 \<or> k = st_en \<tau>"
      let ?\<tau>2 = "(resolve_2x2 sh (st_en \<tau>) \<tau>)
                    \<lparr>st_A := A', st_shift := sh, st_en := st_en \<tau> - 2, st_its := 0\<rparr>"
      from d fin have "hqr_loop C sc low ?\<tau>2 = Inr (out, \<sigma>)"
        using hqr_loop_block [where low = low and \<tau> = \<tau> and C = C and sc = sc and sh = sh and A' = A'] by simp
      from hqr_loop_preserves [OF this] k
      have "st_wr \<sigma> k = st_wr ?\<tau>2 k \<and> st_wi \<sigma> k = st_wi ?\<tau>2 k"
        by auto
      then show "st_wr \<sigma> k = st_wr (resolve_2x2 sh (st_en \<tau>) \<tau>) k \<and>
                 st_wi \<sigma> k = st_wi (resolve_2x2 sh (st_en \<tau>) \<tau>) k"
        by simp
    qed
    from p1 p2 p3 show ?thesis
      by blast
  qed
  from code rows untouched kept show ?thesis
    by (intro conjI) simp_all
qed

lemma ex_H_ok: "args_ok ex_scope4 ex_H" "ncols ex_H = 4" "nrows ex_H = 4"
  by (simp_all add: args_ok_def ex_scope4_def ex_H_def)

lemma ex_H_run:
  "hqr ex_collaborators ex_scope4 ex_H 0 3 (\<lambda>k. 7) (\<lambda>k. 7) None =
     Inr (3, \<lparr>st_A = ex_H, st_Z = None, st_wr = (\<lambda>k. 7)(3 := 6),
              st_wi = (\<lambda>k. 7)(3 := 0), st_en = 2, st_its = 2, st_itn = 0,
              st_shift = \<lparr>val_s = 0, val_t = 0, val_x = 6, val_y = 6, val_w = 2\<rparr>\<rparr>)"
  by (simp add: hqr_def hqr_loop.simps find_deflation_row.simps ex_collaborators_def
        formshift_cases ex_H_ok Let_def record_real_def resolve_2x2_def)
     (simp add: ex_H_def)

lemma ex_H_returns:
  "\<exists>\<sigma>. hqr ex_collaborators ex_scope4 ex_H 0 3 (\<lambda>k. 7) (\<lambda>k. 7) None = Inr (3, \<sigma>)"
  using ex_H_run by blast

lemma ex_H_first:
  "shift_policy_at ex_collaborators ex_scope4 0
     (hqr_start ex_collaborators ex_H 3 (\<lambda>k. 7) (\<lambda>k. 7) None) =
   Inr (1, \<lparr>val_s = 0, val_t = 0, val_x = 6, val_y = 0, val_w = 0\<rparr>, ex_H)"
  by (simp add: find_deflation_row.simps ex_collaborators_def formshift_cases ex_H_ok Let_def)
     (simp add: ex_H_def)

theorem hqr_return_code_witness:
  "\<exists>\<sigma>. hqr ex_collaborators ex_scope4 ex_H 0 3 (\<lambda>k. 7) (\<lambda>k. 7) None = Inr (3, \<sigma>) \<and>
        st_en \<sigma> = 2 \<and> st_itn \<sigma> = 0 \<and> st_wr \<sigma> 3 = 6 \<and> st_wi \<sigma> 3 = 0 \<and> st_wr \<sigma> 2 = 7"
proof -
  from ex_H_returns obtain \<sigma> where
    run: "hqr ex_collaborators ex_scope4 ex_H 0 3 (\<lambda>k. 7) (\<lambda>k. 7) None = Inr (3, \<sigma>)"
    by blast
  note facts = hqr_return_code [OF run]
  from facts have en: "st_en \<sigma> = 2" and itn: "st_itn \<sigma> = 0"
    by simp_all
  from facts en have below: "st_wr \<sigma> 2 = 7"
    by simp
  let ?\<tau> = "hqr_start ex_collaborators ex_H 3 (\<lambda>k. 7) (\<lambda>k. 7) None"
  from facts have "\<forall>sh A'. (0::int) \<le> st_en ?\<tau> \<and>
        shift_policy_at ex_collaborators ex_scope4 0 ?\<tau> = Inr (1, sh, A') \<longrightarrow>
        st_wr \<sigma> (st_en ?\<tau>) = val_x sh \<and> st_wi \<sigma> (st_en ?\<tau>) = 0"
    by blast
  with ex_H_first have "st_wr \<sigma> 3 = 6 \<and> st_wi \<sigma> 3 = 0"
    by simp
  with run en itn below show ?thesis
    by blast
qed

end
